theory Spec2Isabelle
  imports Main
begin

section \<open>JavaScript values, strings and errors\<close>

text \<open>
  The methods of \<^verbatim>\<open>XamlProcessor\<close> and \<^verbatim>\<open>WorkflowMetadata\<close> guard their parameters with
  \<^verbatim>\<open>!v || typeof v !== "string"\<close>, so a parameter is any JavaScript value. Strings are
  lists of code units; the model keeps the code units below 256.
\<close>

datatype jsval =
    Undefined
  | Null
  | Bool bool
  | Num int
  | Str (the_str: string)
  | Obj

fun truthy :: "jsval \<Rightarrow> bool" where
  "truthy Undefined = False"
| "truthy Null = False"
| "truthy (Bool b) = b"
| "truthy (Num n) = (n \<noteq> 0)"
| "truthy (Str s) = (s \<noteq> [])"
| "truthy Obj = True"

fun typeof :: "jsval \<Rightarrow> string" where
  "typeof Undefined = ''undefined''"
| "typeof Null = ''object''"
| "typeof (Bool b) = ''boolean''"
| "typeof (Num n) = ''number''"
| "typeof (Str s) = ''string''"
| "typeof Obj = ''object''"

text \<open>
  Errors as values. \<open>TypeError\<close> and \<open>ReferenceError\<close> are the two classes the code throws
  with \<^verbatim>\<open>throw new ...( message )\<close>. \<open>CannotReadProperty p\<close> is the TypeError the engine
  raises itself when property \<open>p\<close> of \<^verbatim>\<open>undefined\<close> is read (its message is the engine's,
  not the program's). \<open>SystemError\<close> is what \<^verbatim>\<open>fs.readFileSync\<close> throws.
\<close>

datatype error =
    TypeError string
  | ReferenceError string
  | CannotReadProperty string
  | SystemError string

text \<open>\<^verbatim>\<open>String.prototype.indexOf\<close> with a one-character search string: the index of the first
  occurrence, or \<open>-1\<close>.\<close>

definition indexOf :: "string \<Rightarrow> char \<Rightarrow> int" where
  "indexOf s c = (if c \<in> set s then int (length (takeWhile (\<lambda>x. x \<noteq> c) s)) else - 1)"

text \<open>\<^verbatim>\<open>String.prototype.slice( start, end )\<close>: a negative index counts from the end of the
  string, both indices are clamped to the string, and an empty range gives the empty string.\<close>

definition slice :: "string \<Rightarrow> int \<Rightarrow> int \<Rightarrow> string" where
  "slice s start stop =
     (let len = int (length s);
          lo = (if start < 0 then max (len + start) 0 else min start len);
          hi = (if stop < 0 then max (len + stop) 0 else min stop len);
          span = max (hi - lo) 0
      in take (nat span) (drop (nat lo) s))"

text \<open>\<^verbatim>\<open>Array.prototype.join( sep )\<close> on an array of strings.\<close>

fun join :: "string list \<Rightarrow> string \<Rightarrow> string" where
  "join [] sep = []"
| "join [x] sep = x"
| "join (x # y # ys) sep = x @ sep @ join (y # ys) sep"

text \<open>\<^verbatim>\<open>String.prototype.trim\<close>: the white space and line terminators of ECMAScript that are
  code units below 256.\<close>

definition isWhiteSpace :: "char \<Rightarrow> bool" where
  "isWhiteSpace c = (c \<in> {CHR 0x09, CHR 0x0A, CHR 0x0B, CHR 0x0C, CHR 0x0D, CHR 0x20, CHR 0xA0})"

definition trim :: "string \<Rightarrow> string" where
  "trim s = rev (dropWhile isWhiteSpace (rev (dropWhile isWhiteSpace s)))"

text \<open>\<^verbatim>\<open>s.replace( "c", r )\<close> with a one-character string pattern: only the first occurrence
  is replaced.\<close>

definition replace1 :: "char \<Rightarrow> string \<Rightarrow> string \<Rightarrow> string" where
  "replace1 c r s =
     (if c \<in> set s
      then takeWhile (\<lambda>x. x \<noteq> c) s @ r @ tl (dropWhile (\<lambda>x. x \<noteq> c) s)
      else s)"

text \<open>\<^verbatim>\<open>s.replace( /[\r\n]+/, r )\<close>: the regular expression has no \<^verbatim>\<open>g\<close> flag, so the first
  maximal run of carriage returns and line feeds is replaced.\<close>

definition isNewline :: "char \<Rightarrow> bool" where
  "isNewline c = (c = CHR 0x0D \<or> c = CHR 0x0A)"

definition replaceNewlines :: "string \<Rightarrow> string \<Rightarrow> string" where
  "replaceNewlines r s =
     (let rest = dropWhile (\<lambda>x. \<not> isNewline x) s
      in if rest = [] then s
         else takeWhile (\<lambda>x. \<not> isNewline x) s @ r @ dropWhile isNewline rest)"

section \<open>XamlProcessor.parseArgumentTypeAttribute\<close>

definition parseArgumentTypeAttribute :: "jsval \<Rightarrow> error + (string \<times> string)" where
  "parseArgumentTypeAttribute argumentType =
     (if \<not> truthy argumentType \<or> typeof argumentType \<noteq> ''string''
      then Inl (TypeError ''argumentType parameter is required and must be a string'')
      else
        let s = the_str argumentType;
            direction = slice s 0 (indexOf s CHR ''('');
            dataType = slice s (indexOf s CHR '':'' + 1) (indexOf s CHR '')'')
        in Inr (direction, dataType))"

section \<open>WorkflowMetadata\<close>

text \<open>The object literal stored for one argument by \<^verbatim>\<open>addArgument\<close> and built for one
  property by \<^verbatim>\<open>getWorkflowArguments\<close>.\<close>

record argument =
  arg_name :: string
  arg_direction :: string
  arg_type :: string
  arg_annotation :: string
  arg_defaultValue :: string

text \<open>
  The fields of a \<^verbatim>\<open>WorkflowMetadata\<close> object. \<^verbatim>\<open>workflowName\<close> and
  \<^verbatim>\<open>workflowAnnotation\<close> are \<^verbatim>\<open>undefined\<close> (\<open>None\<close>) until their setter has run.
  \<^verbatim>\<open>arguments\<close> is a JavaScript \<^verbatim>\<open>Map\<close>, kept as an association list in insertion
  order. \<^verbatim>\<open>validArgumentDirections\<close> is assigned in the constructor and never written
  again, so it is a constant here. The revision of the class in \<^verbatim>\<open>part_006\<close> has one more
  field, \<^verbatim>\<open>projectFilePath\<close>.
\<close>

record WorkflowMetadata =
  filePath :: string
  arguments :: "(string \<times> argument) list"
  workflowName :: "string option"
  workflowAnnotation :: "string option"

record WorkflowMetadata_p6 = WorkflowMetadata +
  projectFilePath :: "string option"

definition validArgumentDirections :: "string list" where
  "validArgumentDirections = [''InArgument'', ''OutArgument'', ''InOutArgument'']"

text \<open>\<^verbatim>\<open>Map.prototype.set\<close>: an existing key keeps its position and gets the new value, a
  new key is appended. \<^verbatim>\<open>Map.prototype.get\<close> is \<open>map_of\<close>.\<close>

fun Map_set :: "'k \<Rightarrow> 'v \<Rightarrow> ('k \<times> 'v) list \<Rightarrow> ('k \<times> 'v) list" where
  "Map_set k v [] = [(k, v)]"
| "Map_set k v ((k', v') # kvs) =
     (if k' = k then (k, v) # kvs else (k', v') # Map_set k v kvs)"

text \<open>The constructor of \<^verbatim>\<open>app/WorkflowMetadata.js\<close>.\<close>

definition new_WorkflowMetadata :: "jsval \<Rightarrow> error + WorkflowMetadata" where
  "new_WorkflowMetadata fp =
     (if \<not> truthy fp \<or> typeof fp \<noteq> ''string''
      then Inl (TypeError ''filePath parameter is required and must be a string'')
      else Inr \<lparr>filePath = the_str fp, arguments = [],
                workflowName = None, workflowAnnotation = None\<rparr>)"

text \<open>The setters are the same in both revisions of the class.\<close>

definition setWorkflowName ::
  "'a WorkflowMetadata_scheme \<Rightarrow> jsval \<Rightarrow> error + 'a WorkflowMetadata_scheme" where
  "setWorkflowName meta wn =
     (if \<not> truthy wn \<or> typeof wn \<noteq> ''string''
      then Inl (TypeError ''workflowName parameter is required and must be a string'')
      else Inr (meta\<lparr>workflowName := Some (the_str wn)\<rparr>))"

definition setWorkflowAnnotation ::
  "'a WorkflowMetadata_scheme \<Rightarrow> jsval \<Rightarrow> error + 'a WorkflowMetadata_scheme" where
  "setWorkflowAnnotation meta wa =
     (if \<not> truthy wa \<or> typeof wa \<noteq> ''string''
      then Inl (TypeError ''workflowAnnotation parameter is required and must be a string'')
      else Inr (meta\<lparr>workflowAnnotation := Some (the_str wa)\<rparr>))"

text \<open>The getters of \<^verbatim>\<open>app/WorkflowMetadata.js\<close> return the stored string as it is.\<close>

definition getWorkflowName :: "'a WorkflowMetadata_scheme \<Rightarrow> error + string" where
  "getWorkflowName meta =
     (case workflowName meta of
        None \<Rightarrow> Inl (ReferenceError ''The workflowName property has not been set.'')
      | Some wn \<Rightarrow> Inr wn)"

definition getWorkflowAnnotation :: "'a WorkflowMetadata_scheme \<Rightarrow> error + string" where
  "getWorkflowAnnotation meta =
     (case workflowAnnotation meta of
        None \<Rightarrow> Inl (ReferenceError ''The workflowAnnotation property has not been set.'')
      | Some wa \<Rightarrow> Inr wa)"

text \<open>The getters of the revision in \<^verbatim>\<open>part_006\<close> return the stored string trimmed.\<close>

definition getWorkflowName_p6 :: "'a WorkflowMetadata_scheme \<Rightarrow> error + string" where
  "getWorkflowName_p6 meta =
     (case workflowName meta of
        None \<Rightarrow> Inl (ReferenceError ''The workflowName property has not been set.'')
      | Some wn \<Rightarrow> Inr (trim wn))"

definition getWorkflowAnnotation_p6 :: "'a WorkflowMetadata_scheme \<Rightarrow> error + string" where
  "getWorkflowAnnotation_p6 meta =
     (case workflowAnnotation meta of
        None \<Rightarrow> Inl (ReferenceError ''The workflowAnnotation property has not been set.'')
      | Some wa \<Rightarrow> Inr (trim wa))"

text \<open>
  The six guards of \<^verbatim>\<open>addArgument\<close>, in the order of the source, are the same in both
  revisions: \<open>None\<close> when the five parameters pass, otherwise the error thrown.
\<close>

definition addArgument_guards ::
  "jsval \<Rightarrow> jsval \<Rightarrow> jsval \<Rightarrow> jsval \<Rightarrow> jsval \<Rightarrow> error option" where
  "addArgument_guards nm direction ty annotation defaultValue =
     (if \<not> truthy nm \<or> typeof nm \<noteq> ''string''
      then Some (TypeError ''name parameter is required and must be a string'')
      else if \<not> truthy direction \<or> typeof direction \<noteq> ''string''
      then Some (TypeError ''direction parameter is required and must be a string'')
      else if the_str direction \<notin> set validArgumentDirections
      then Some (TypeError (''direction parameter must be one of ''
                            @ join validArgumentDirections ''|''))
      else if \<not> truthy ty \<or> typeof ty \<noteq> ''string''
      then Some (TypeError ''type parameter is required and must be a string'')
      else if typeof annotation \<noteq> ''string''
      then Some (TypeError ''annotation parameter is required and must be a string'')
      else if typeof defaultValue \<noteq> ''string''
      then Some (TypeError ''defaultValue parameter is required and must be a string'')
      else None)"

text \<open>\<^verbatim>\<open>addArgument\<close> of \<^verbatim>\<open>app/WorkflowMetadata.js\<close> stores the five strings as given.\<close>

definition addArgument ::
  "'a WorkflowMetadata_scheme \<Rightarrow> jsval \<Rightarrow> jsval \<Rightarrow> jsval \<Rightarrow> jsval \<Rightarrow> jsval
     \<Rightarrow> error + 'a WorkflowMetadata_scheme" where
  "addArgument meta nm direction ty annotation defaultValue =
     (case addArgument_guards nm direction ty annotation defaultValue of
        Some e \<Rightarrow> Inl e
      | None \<Rightarrow>
          Inr (meta\<lparr>arguments :=
                 Map_set (the_str nm)
                   \<lparr>arg_name = the_str nm,
                    arg_direction = the_str direction,
                    arg_type = the_str ty,
                    arg_annotation = the_str annotation,
                    arg_defaultValue = the_str defaultValue\<rparr>
                   (arguments meta)\<rparr>))"

text \<open>\<^verbatim>\<open>addArgument\<close> of the revision in \<^verbatim>\<open>part_006\<close> keys the entry by the name as given
  and stores the fields trimmed, the annotation with its first run of line breaks replaced by
  a space, the default value without its first \<^verbatim>\<open>[\<close> and its first \<^verbatim>\<open>]\<close>.\<close>

definition addArgument_p6 ::
  "'a WorkflowMetadata_scheme \<Rightarrow> jsval \<Rightarrow> jsval \<Rightarrow> jsval \<Rightarrow> jsval \<Rightarrow> jsval
     \<Rightarrow> error + 'a WorkflowMetadata_scheme" where
  "addArgument_p6 meta nm direction ty annotation defaultValue =
     (case addArgument_guards nm direction ty annotation defaultValue of
        Some e \<Rightarrow> Inl e
      | None \<Rightarrow>
          Inr (meta\<lparr>arguments :=
                 Map_set (the_str nm)
                   \<lparr>arg_name = trim (the_str nm),
                    arg_direction = trim (the_str direction),
                    arg_type = trim (the_str ty),
                    arg_annotation = replaceNewlines '' '' (trim (the_str annotation)),
                    arg_defaultValue =
                      replace1 CHR '']'' [] (replace1 CHR ''['' [] (trim (the_str defaultValue)))\<rparr>
                   (arguments meta)\<rparr>))"

definition getArguments :: "'a WorkflowMetadata_scheme \<Rightarrow> (string \<times> argument) list" where
  "getArguments meta = arguments meta"

section \<open>The parsed document\<close>

text \<open>
  What \<^verbatim>\<open>xmldom\<close> and \<^verbatim>\<open>xpath\<close> give the code: an element has a namespace URI, a local
  name, its attributes by qualified name as written in the file (unique within an element)
  and its child elements in document order; a document has at most one outermost element.
  \<^verbatim>\<open>getAttribute\<close> of \<^verbatim>\<open>xmldom\<close> returns the empty string for an absent attribute.
\<close>

datatype element =
  Element (namespaceURI: string) (localName: string)
          (attributes: "(string \<times> string) list") (childNodes: "element list")

datatype document = Document (documentElement: "element option")

definition hasAttribute :: "element \<Rightarrow> string \<Rightarrow> bool" where
  "hasAttribute e a = (map_of (attributes e) a \<noteq> None)"

definition getAttribute :: "element \<Rightarrow> string \<Rightarrow> string" where
  "getAttribute e a = (case map_of (attributes e) a of None \<Rightarrow> [] | Some v \<Rightarrow> v)"

text \<open>The prefixes bound in the constructor of \<^verbatim>\<open>XamlProcessor\<close>.\<close>

definition xamlNamespaces :: "(string \<times> string) list" where
  "xamlNamespaces =
     [(''xaml'', ''http://schemas.microsoft.com/netfx/2009/xaml/activities''),
      (''x'', ''http://schemas.microsoft.com/winfx/2006/xaml''),
      (''sap2010'', ''http://schemas.microsoft.com/netfx/2010/xaml/activities/presentation''),
      (''ui'', ''http://schemas.uipath.com/workflow/activities''),
      (''this'', ''clr-namespace:'')]"

text \<open>
  An absolute location path of child steps \<^verbatim>\<open>/p1:n1/p2:n2/...\<close>, as the list of its
  (prefix, local name) steps: a step keeps the candidates of that expanded name, the next
  step works on their children. The first candidates are the children of the document node.
\<close>

definition nameTest :: "string \<Rightarrow> string \<Rightarrow> element \<Rightarrow> bool" where
  "nameTest p n e = (map_of xamlNamespaces p = Some (namespaceURI e) \<and> localName e = n)"

fun xpath_steps :: "(string \<times> string) list \<Rightarrow> element list \<Rightarrow> element list" where
  "xpath_steps [] cands = cands"
| "xpath_steps [(p, n)] cands = filter (nameTest p n) cands"
| "xpath_steps ((p, n) # st # steps) cands =
     xpath_steps (st # steps) (concat (map childNodes (filter (nameTest p n) cands)))"

definition xpath :: "(string \<times> string) list \<Rightarrow> document \<Rightarrow> element list" where
  "xpath steps doc =
     xpath_steps steps (case documentElement doc of None \<Rightarrow> [] | Some e \<Rightarrow> [e])"

section \<open>XamlProcessor\<close>

text \<open>
  The parameter \<^verbatim>\<open>xamlDoc\<close> is what \<^verbatim>\<open>parseFromString\<close> of \<^verbatim>\<open>xmldom\<close> returns: a parsed
  document, or \<^verbatim>\<open>undefined\<close> (\<open>None\<close>) for an empty source. The guard
  \<^verbatim>\<open>!xamlDoc || typeof( xamlDoc ) !== "object"\<close> of every method throws for
  \<^verbatim>\<open>undefined\<close> and lets a document pass. \<^verbatim>\<open>workflowElements[ 0 ]\<close> of an empty array is
  \<^verbatim>\<open>undefined\<close>, and calling a method on it is the engine's TypeError.
\<close>

definition workflowElements :: "document \<Rightarrow> element list" where
  "workflowElements xamlDoc =
     (let es = xpath [(''xaml'', ''Activity''), (''xaml'', ''Flowchart'')] xamlDoc
      in if length es = 0
         then xpath [(''xaml'', ''Activity''), (''xaml'', ''Sequence'')] xamlDoc
         else es)"

definition getWorkflowName_xaml :: "document option \<Rightarrow> error + string" where
  "getWorkflowName_xaml xamlDoc =
     (case xamlDoc of
        None \<Rightarrow> Inl (TypeError
          ''xamlDoc parameter is required and must be an instance of DOMParser object'')
      | Some doc \<Rightarrow>
          (case workflowElements doc of
             [] \<Rightarrow> Inl (CannotReadProperty ''getAttribute'')
           | e # _ \<Rightarrow> Inr (getAttribute e ''DisplayName'')))"

definition getWorkflowAnnotation_xaml :: "document option \<Rightarrow> error + string" where
  "getWorkflowAnnotation_xaml xamlDoc =
     (case xamlDoc of
        None \<Rightarrow> Inl (TypeError
          ''xamlDoc parameter is required and must be an instance of DOMParser object'')
      | Some doc \<Rightarrow>
          (case workflowElements doc of
             [] \<Rightarrow> Inl (CannotReadProperty ''hasAttribute'')
           | e # _ \<Rightarrow>
               if hasAttribute e ''sap2010:Annotation.AnnotationText'' = True
               then Inr (getAttribute e ''sap2010:Annotation.AnnotationText'')
               else Inr []))"

definition getClassName :: "document option \<Rightarrow> error + string" where
  "getClassName xamlDoc =
     (case xamlDoc of
        None \<Rightarrow> Inl (TypeError
          ''xamlDoc parameter is required and must be an instance of DOMParser object'')
      | Some doc \<Rightarrow>
          (case xpath [(''xaml'', ''Activity'')] doc of
             [] \<Rightarrow> Inl (CannotReadProperty ''getAttribute'')
           | activityElement # _ \<Rightarrow> Inr (getAttribute activityElement ''x:Class'')))"

text \<open>\<^verbatim>\<open>util.format( "this:%s.%s", className, argumentName )\<close> on two strings.\<close>

definition format_this :: "string \<Rightarrow> string \<Rightarrow> string" where
  "format_this className argumentName = ''this:'' @ className @ ''.'' @ argumentName"

definition getArgumentDefaultValue :: "document option \<Rightarrow> jsval \<Rightarrow> error + string" where
  "getArgumentDefaultValue xamlDoc argumentName =
     (case xamlDoc of
        None \<Rightarrow> Inl (TypeError
          ''xamlDoc parameter is required and must be an instance of DOMParser object'')
      | Some doc \<Rightarrow>
     (if \<not> truthy argumentName \<or> typeof argumentName \<noteq> ''string''
      then Inl (TypeError ''argumentName parameter is required and must be a string'')
      else
        (case getClassName xamlDoc of
          Inl e \<Rightarrow> Inl e
        | Inr className \<Rightarrow>
            (case xpath [(''xaml'', ''Activity'')] doc of
               [] \<Rightarrow> Inl (CannotReadProperty ''hasAttribute'')
             | activityElement # _ \<Rightarrow>
                 let attributeName = format_this className (the_str argumentName)
                 in if hasAttribute activityElement attributeName
                    then Inr (getAttribute activityElement attributeName)
                    else Inr []))))"

text \<open>The body of the \<^verbatim>\<open>forEach\<close> of \<^verbatim>\<open>getWorkflowArguments\<close> for one property element,
  and the loop over the property elements: the first throw ends it. The loop runs after the
  guard, on a document, which it hands to \<^verbatim>\<open>getArgumentDefaultValue\<close>.\<close>

definition argumentMeta :: "document \<Rightarrow> element \<Rightarrow> error + argument" where
  "argumentMeta xamlDoc arg =
     (let argumentName = getAttribute arg ''Name'';
          typeAttribute = getAttribute arg ''Type''
      in case parseArgumentTypeAttribute (Str typeAttribute) of
           Inl e \<Rightarrow> Inl e
         | Inr argumentTypeInfo \<Rightarrow>
            (let argumentAnnotation =
                   (if hasAttribute arg ''sap2010:Annotation.AnnotationText''
                    then getAttribute arg ''sap2010:Annotation.AnnotationText''
                    else [])
             in (case getArgumentDefaultValue (Some xamlDoc) (Str argumentName) of
                   Inl e \<Rightarrow> Inl e
                 | Inr defaultValue \<Rightarrow>
                     Inr \<lparr>arg_name = argumentName,
                          arg_direction = fst argumentTypeInfo,
                          arg_type = snd argumentTypeInfo,
                          arg_annotation = argumentAnnotation,
                          arg_defaultValue = defaultValue\<rparr>)))"

fun forEach_argumentMeta :: "document \<Rightarrow> element list \<Rightarrow> error + argument list" where
  "forEach_argumentMeta xamlDoc [] = Inr []"
| "forEach_argumentMeta xamlDoc (arg # rest) =
     (case argumentMeta xamlDoc arg of
        Inl e \<Rightarrow> Inl e
      | Inr a \<Rightarrow>
          (case forEach_argumentMeta xamlDoc rest of
             Inl e \<Rightarrow> Inl e
           | Inr as \<Rightarrow> Inr (a # as)))"

definition getWorkflowArguments :: "document option \<Rightarrow> error + argument list" where
  "getWorkflowArguments xamlDoc =
     (case xamlDoc of
        None \<Rightarrow> Inl (TypeError
          ''xamlDoc parameter is required and must be an instance of DOMParser object'')
      | Some doc \<Rightarrow>
          forEach_argumentMeta doc
            (xpath [(''xaml'', ''Activity''), (''x'', ''Members''), (''x'', ''Property'')] doc))"

text \<open>The \<^verbatim>\<open>forEach\<close> of \<^verbatim>\<open>getMetadata\<close> that adds the arguments to the model.\<close>

fun forEach_addArgument ::
  "WorkflowMetadata \<Rightarrow> argument list \<Rightarrow> error + WorkflowMetadata" where
  "forEach_addArgument metadata [] = Inr metadata"
| "forEach_addArgument metadata (arg # rest) =
     (case addArgument metadata (Str (arg_name arg)) (Str (arg_direction arg))
             (Str (arg_type arg)) (Str (arg_annotation arg)) (Str (arg_defaultValue arg)) of
        Inl e \<Rightarrow> Inl e
      | Inr metadata' \<Rightarrow> forEach_addArgument metadata' rest)"

text \<open>
  \<^verbatim>\<open>getMetadata\<close>. The file system and the XML parser are parameters: \<open>readFileSync\<close> gives
  the content of a path or the error it throws, \<open>parseFromString\<close> the parsed document, or
  \<open>None\<close> where \<^verbatim>\<open>xmldom\<close> returns \<^verbatim>\<open>undefined\<close>.
\<close>

definition getMetadata ::
  "(string \<Rightarrow> error + string) \<Rightarrow> (string \<Rightarrow> document option) \<Rightarrow> jsval
     \<Rightarrow> error + WorkflowMetadata" where
  "getMetadata readFileSync parseFromString fp =
     (if \<not> truthy fp \<or> typeof fp \<noteq> ''string''
      then Inl (TypeError ''filePath parameter is required and must be a string'')
      else
        case readFileSync (the_str fp) of
          Inl e \<Rightarrow> Inl e
        | Inr xamlContent \<Rightarrow>
           (let doc = parseFromString xamlContent in
            case new_WorkflowMetadata fp of
              Inl e \<Rightarrow> Inl e
            | Inr metadata0 \<Rightarrow>
           (case getWorkflowName_xaml doc of
              Inl e \<Rightarrow> Inl e
            | Inr wn \<Rightarrow>
           (case setWorkflowName metadata0 (Str wn) of
              Inl e \<Rightarrow> Inl e
            | Inr metadata1 \<Rightarrow>
           (case getWorkflowAnnotation_xaml doc of
              Inl e \<Rightarrow> Inl e
            | Inr wa \<Rightarrow>
           (case setWorkflowAnnotation metadata1 (Str wa) of
              Inl e \<Rightarrow> Inl e
            | Inr metadata2 \<Rightarrow>
           (case getWorkflowArguments doc of
              Inl e \<Rightarrow> Inl e
            | Inr workflowArguments \<Rightarrow>
                forEach_addArgument metadata2 workflowArguments)))))))"

section \<open>Example inputs\<close>

text \<open>A model as the constructor leaves it, in each revision of the class.\<close>

abbreviation fresh :: WorkflowMetadata where
  "fresh \<equiv> \<lparr>filePath = ''uno.xaml'', arguments = [],
             workflowName = None, workflowAnnotation = None\<rparr>"

abbreviation fresh_p6 :: WorkflowMetadata_p6 where
  "fresh_p6 \<equiv> \<lparr>filePath = ''uno.xaml'', arguments = [],
                workflowName = None, workflowAnnotation = None, projectFilePath = None\<rparr>"

text \<open>
  Three documents: an activity whose sequence has a display name and no annotation, an
  activity with neither a flowchart nor a sequence, and an activity that declares the argument
  \<open>Ichi\<close> with a default value and the argument \<open>Ni\<close> without one.
\<close>

abbreviation xaml_ns :: string where
  "xaml_ns \<equiv> ''http://schemas.microsoft.com/netfx/2009/xaml/activities''"

abbreviation x_ns :: string where
  "x_ns \<equiv> ''http://schemas.microsoft.com/winfx/2006/xaml''"

text \<open>The text of the three files, which \<^verbatim>\<open>readFileSync\<close> returns and the parser reads.\<close>

abbreviation xaml_dos :: string where
  "xaml_dos \<equiv> ''<Activity x:Class='dos' xmlns:x='http://schemas.microsoft.com/winfx/2006/xaml' xmlns='http://schemas.microsoft.com/netfx/2009/xaml/activities'><Sequence DisplayName='dos'/></Activity>''"

abbreviation xaml_no_workflow :: string where
  "xaml_no_workflow \<equiv> ''<Activity x:Class='nil' xmlns:x='http://schemas.microsoft.com/winfx/2006/xaml' xmlns='http://schemas.microsoft.com/netfx/2009/xaml/activities'/>''"

abbreviation xaml_uno :: string where
  "xaml_uno \<equiv> ''<Activity x:Class='uno' this:uno.Ichi='A default string value' xmlns:this='clr-namespace:' xmlns:sap2010='http://schemas.microsoft.com/netfx/2010/xaml/activities/presentation' xmlns:x='http://schemas.microsoft.com/winfx/2006/xaml' xmlns='http://schemas.microsoft.com/netfx/2009/xaml/activities'><x:Members><x:Property Name='Ichi' Type='InArgument(x:String)'/><x:Property Name='Ni' Type='InArgument(x:String)'/></x:Members><Sequence DisplayName='uno' sap2010:Annotation.AnnotationText='Hello'/></Activity>''"

abbreviation doc_dos :: document where
  "doc_dos \<equiv> Document (Some (Element xaml_ns ''Activity'' [(''x:Class'', ''dos'')]
     [Element xaml_ns ''Sequence'' [(''DisplayName'', ''dos'')] []]))"

abbreviation doc_no_workflow :: document where
  "doc_no_workflow \<equiv> Document (Some (Element xaml_ns ''Activity'' [(''x:Class'', ''nil'')] []))"

abbreviation prop_Ichi :: element where
  "prop_Ichi \<equiv>
     Element x_ns ''Property'' [(''Name'', ''Ichi''), (''Type'', ''InArgument(x:String)'')] []"

abbreviation prop_Ni :: element where
  "prop_Ni \<equiv>
     Element x_ns ''Property'' [(''Name'', ''Ni''), (''Type'', ''InArgument(x:String)'')] []"

abbreviation doc_uno :: document where
  "doc_uno \<equiv> Document (Some (Element xaml_ns ''Activity''
     [(''x:Class'', ''uno''), (''this:uno.Ichi'', ''A default string value'')]
     [Element x_ns ''Members'' [] [prop_Ichi, prop_Ni],
      Element xaml_ns ''Sequence''
        [(''DisplayName'', ''uno''), (''sap2010:Annotation.AnnotationText'', ''Hello'')] []]))"

section \<open>Properties of the type and direction descriptor parser\<close>

text \<open>With indices inside \<open>0..\<close>, \<open>slice\<close> is \<open>drop\<close> after \<open>take\<close>; with the index \<open>-1\<close>
  that \<open>indexOf\<close> gives for a missing character, the last character is cut.\<close>

lemma slice_nonneg:
  assumes "0 \<le> a" "0 \<le> b"
  shows "slice s a b = drop (nat a) (take (nat b) s)"
proof -
  have "take (nat (max (min b (int (length s)) - min a (int (length s))) 0)) (drop (nat (min a (int (length s)))) s)
        = take (nat b - nat a) (drop (nat a) s)"
  proof (cases "a \<le> int (length s)")
    case True
    then have lo: "min a (int (length s)) = a" by simp
    show ?thesis
    proof (cases "b \<le> int (length s)")
      case True
      then show ?thesis using lo assms by (simp add: max_def nat_diff_distrib')
    next
      case False
      then have hi: "min b (int (length s)) = int (length s)" by simp
      have A: "length (drop (nat a) s) \<le> nat b - nat a" using False assms by simp
      have B: "length (drop (nat a) s) \<le> nat (max (int (length s) - a) 0)"
        using \<open>a \<le> int (length s)\<close> assms by (simp add: max_def) linarith
      show ?thesis unfolding lo hi using A B by (simp only: take_all)
    qed
  next
    case False
    then have "length s \<le> nat a" "length s \<le> nat (min a (int (length s)))" using assms by simp_all
    then show ?thesis by simp
  qed
  then show ?thesis using assms by (simp add: slice_def Let_def drop_take)
qed

lemma slice_neg1:
  assumes "s \<noteq> []" "0 \<le> a"
  shows "slice s a (- 1) = drop (nat a) (butlast s)"
proof -
  have len: "0 < length s" using assms by simp
  have "slice s a (- 1) = slice s a (int (length s) - 1)"
    using len by (simp add: slice_def Let_def max_def min_def)
  also have "\<dots> = drop (nat a) (take (nat (int (length s) - 1)) s)"
    using len assms by (intro slice_nonneg) simp_all
  also have "nat (int (length s) - 1) = length s - 1" by simp
  finally show ?thesis by (simp add: butlast_conv_take)
qed

lemma indexOf_present: "c \<in> set s \<Longrightarrow> indexOf s c = int (length (takeWhile (\<lambda>x. x \<noteq> c) s))"
  by (simp add: indexOf_def)

lemma indexOf_absent: "c \<notin> set s \<Longrightarrow> indexOf s c = - 1"
  by (simp add: indexOf_def)

lemma slice_to_indexOf:
  assumes "s \<noteq> []" "0 \<le> a"
  shows "slice s a (indexOf s c) =
         drop (nat a) (if c \<in> set s then takeWhile (\<lambda>x. x \<noteq> c) s else butlast s)"
proof (cases "c \<in> set s")
  case True
  then show ?thesis using assms
    by (simp add: indexOf_present slice_nonneg takeWhile_eq_take [symmetric])
next
  case False
  then show ?thesis using assms by (simp add: indexOf_absent slice_neg1)
qed

lemma parseArgumentTypeAttribute_Str:
  assumes "s \<noteq> []"
  shows "parseArgumentTypeAttribute (Str s) =
         Inr (if CHR ''('' \<in> set s then takeWhile (\<lambda>x. x \<noteq> CHR ''('') s else butlast s,
              drop (if CHR '':'' \<in> set s then Suc (length (takeWhile (\<lambda>x. x \<noteq> CHR '':'') s)) else 0)
                   (if CHR '')'' \<in> set s then takeWhile (\<lambda>x. x \<noteq> CHR '')'') s else butlast s))"
proof -
  have d: "slice s 0 (indexOf s CHR ''('') =
           (if CHR ''('' \<in> set s then takeWhile (\<lambda>x. x \<noteq> CHR ''('') s else butlast s)"
    using slice_to_indexOf [OF assms, of 0 "CHR ''(''"] by simp
  have a: "0 \<le> indexOf s CHR '':'' + 1" by (simp add: indexOf_def)
  have n: "nat (indexOf s CHR '':'' + 1) =
           (if CHR '':'' \<in> set s then Suc (length (takeWhile (\<lambda>x. x \<noteq> CHR '':'') s)) else 0)"
    by (simp add: indexOf_def nat_add_distrib)
  have t: "slice s (indexOf s CHR '':'' + 1) (indexOf s CHR '')'') =
           drop (if CHR '':'' \<in> set s then Suc (length (takeWhile (\<lambda>x. x \<noteq> CHR '':'') s)) else 0)
                (if CHR '')'' \<in> set s then takeWhile (\<lambda>x. x \<noteq> CHR '')'') s else butlast s)"
    using slice_to_indexOf [OF assms a, of "CHR '')''"] unfolding n .
  show ?thesis
    unfolding parseArgumentTypeAttribute_def Let_def using assms d t by simp
qed


lemma takeWhile_until: "c \<notin> set xs \<Longrightarrow> takeWhile (\<lambda>x. x \<noteq> c) (xs @ c # ys) = xs"
  by (induction xs) auto

text \<open>
  Claim C4. A token of the shape \<open>D(p:T)\<close>, where \<open>D\<close> has no \<open>(\<close>, neither \<open>D\<close> nor \<open>p\<close> has a
  \<open>:\<close>, and none of \<open>D\<close>, \<open>p\<close>, \<open>T\<close> has a \<open>)\<close>, so that \<open>D\<close> is all that precedes the first \<open>(\<close>
  and \<open>T\<close> all that lies strictly between the first \<open>:\<close> and the first \<open>)\<close>, is decoded to
  exactly \<open>(D, T)\<close>, whatever the prefix \<open>p\<close> and whatever follows the first \<open>)\<close>.
\<close>

theorem parseArgumentTypeAttribute_shape:
  assumes "CHR ''('' \<notin> set D"
    and "CHR '':'' \<notin> set (D @ p)"
    and "CHR '')'' \<notin> set (D @ p @ T)"
  shows "parseArgumentTypeAttribute (Str (D @ ''('' @ p @ '':'' @ T @ '')'' @ r)) = Inr (D, T)"
proof -
  let ?s = "D @ ''('' @ p @ '':'' @ T @ '')'' @ r"
  have ne: "?s \<noteq> []" by simp
  have lp: "takeWhile (\<lambda>x. x \<noteq> CHR ''('') ?s = D"
    using takeWhile_until [OF assms(1)] by simp
  have "CHR '':'' \<notin> set (D @ ''('' @ p)" using assms(2) by simp
  from takeWhile_until [OF this]
  have co: "takeWhile (\<lambda>x. x \<noteq> CHR '':'') ?s = D @ ''('' @ p" by simp
  have "CHR '')'' \<notin> set (D @ ''('' @ p @ '':'' @ T)" using assms(3) by simp
  from takeWhile_until [OF this]
  have rp: "takeWhile (\<lambda>x. x \<noteq> CHR '')'') ?s = D @ ''('' @ p @ '':'' @ T" by simp
  have mem: "CHR ''('' \<in> set ?s" "CHR '':'' \<in> set ?s" "CHR '')'' \<in> set ?s"
    by simp_all
  show ?thesis
    unfolding parseArgumentTypeAttribute_Str [OF ne] lp co rp using mem by simp
qed

theorem parseArgumentTypeAttribute_shape_witness:
  "CHR ''('' \<notin> set ''InOutArgument'' \<and> CHR '':'' \<notin> set (''InOutArgument'' @ ''x'')
   \<and> CHR '')'' \<notin> set (''InOutArgument'' @ ''x'' @ ''String'')
   \<and> parseArgumentTypeAttribute (Str ''InOutArgument(x:String)'')
       = Inr (''InOutArgument'', ''String'')"
  using parseArgumentTypeAttribute_shape [of "''InOutArgument''" "''x''" "''String''" "[]"]
  by simp

text \<open>
  Claim C3, as the code has it. The parser has no structural check: for every non-empty
  token, also one that lacks a delimiter, it raises no error and returns a pair. A missing
  \<open>(\<close> or \<open>)\<close> makes the slice end before the last character of the token, a missing \<open>:\<close>
  makes the type start at the first character. Only an empty token is refused.
\<close>

theorem parseArgumentTypeAttribute_no_structural_check:
  assumes "s \<noteq> []"
  shows "parseArgumentTypeAttribute (Str s) =
         Inr (if CHR ''('' \<in> set s then takeWhile (\<lambda>x. x \<noteq> CHR ''('') s else butlast s,
              drop (if CHR '':'' \<in> set s
                    then Suc (length (takeWhile (\<lambda>x. x \<noteq> CHR '':'') s)) else 0)
                   (if CHR '')'' \<in> set s then takeWhile (\<lambda>x. x \<noteq> CHR '')'') s
                    else butlast s))
         \<and> parseArgumentTypeAttribute (Str []) =
           Inl (TypeError ''argumentType parameter is required and must be a string'')"
  using parseArgumentTypeAttribute_Str [OF assms]
  by (simp add: parseArgumentTypeAttribute_def)

theorem parseArgumentTypeAttribute_no_structural_check_witness:
  "''In(x'' \<noteq> [] \<and> parseArgumentTypeAttribute (Str ''In(x'') = Inr (''In'', ''In('')"
  using parseArgumentTypeAttribute_no_structural_check [of "''In(x''"]
  by simp

text \<open>The token \<open>InArgument\<close> has none of the three delimiters, and is decoded without an
  error to a pair of two truncated copies of itself.\<close>

theorem parseArgumentTypeAttribute_missing_delimiters_counterexample:
  "parseArgumentTypeAttribute (Str ''InArgument'') = Inr (''InArgumen'', ''InArgumen'')"
  by code_simp

section \<open>Properties of the metadata model\<close>

lemma required_string_iff:
  "(\<not> truthy v \<or> typeof v \<noteq> ''string'') \<longleftrightarrow> \<not> (\<exists>s. v = Str s \<and> s \<noteq> [])"
  by (cases v) auto

lemma typeof_string_iff: "typeof v \<noteq> ''string'' \<longleftrightarrow> \<not> (\<exists>s. v = Str s)"
  by (cases v) auto

lemma map_of_Map_set: "map_of (Map_set k v kvs) = (map_of kvs)(k \<mapsto> v)"
  by (induction kvs) auto


lemma addArgument_guards_pass:
  assumes "n \<noteq> []" "d \<in> set validArgumentDirections" "t \<noteq> []"
  shows "addArgument_guards (Str n) (Str d) (Str t) (Str a) (Str v) = None"
proof -
  have "d \<noteq> []" using assms(2) by (auto simp: validArgumentDirections_def)
  then show ?thesis using assms by (simp add: addArgument_guards_def)
qed

lemma addArgument_guards_NoneD:
  assumes "addArgument_guards nm direction ty annotation defaultValue = None"
  shows "\<exists>n d t a v. nm = Str n \<and> n \<noteq> [] \<and> direction = Str d \<and> d \<in> set validArgumentDirections
        \<and> ty = Str t \<and> t \<noteq> [] \<and> annotation = Str a \<and> defaultValue = Str v"
proof -
  from assms have 1: "\<exists>s. nm = Str s \<and> s \<noteq> []"
    unfolding addArgument_guards_def required_string_iff by (simp split: if_splits)
  from assms have 2: "\<exists>s. direction = Str s \<and> s \<noteq> []"
    unfolding addArgument_guards_def required_string_iff by (simp split: if_splits)
  from assms have 3: "the_str direction \<in> set validArgumentDirections"
    unfolding addArgument_guards_def by (simp split: if_splits)
  from assms have 4: "\<exists>s. ty = Str s \<and> s \<noteq> []"
    unfolding addArgument_guards_def required_string_iff by (simp split: if_splits)
  from assms have 5: "\<exists>s. annotation = Str s"
    unfolding addArgument_guards_def typeof_string_iff by (simp split: if_splits)
  from assms have 6: "\<exists>s. defaultValue = Str s"
    unfolding addArgument_guards_def typeof_string_iff by (simp split: if_splits)
  from 1 2 3 4 5 6 show ?thesis by auto
qed





lemma trim_validArgumentDirections: "d \<in> set validArgumentDirections \<Longrightarrow> trim d = d"
  by (auto simp: validArgumentDirections_def trim_def isWhiteSpace_def)

lemma addArgument_Inr_arguments:
  fixes meta :: "'a WorkflowMetadata_scheme"
  assumes "add = addArgument \<or> add = addArgument_p6"
    and "add meta nm direction ty annotation defaultValue = Inr meta'"
  shows "\<exists>arg. meta' = meta\<lparr>arguments := Map_set (the_str nm) arg (arguments meta)\<rparr>
              \<and> arg_direction arg \<in> set validArgumentDirections"
proof -
  have g: "addArgument_guards nm direction ty annotation defaultValue = None"
    using assms by (auto simp: addArgument_def addArgument_p6_def split: option.splits)
  from addArgument_guards_NoneD [OF g] obtain d where
    d: "direction = Str d" "d \<in> set validArgumentDirections" by auto
  from assms(1) show ?thesis
  proof
    assume "add = addArgument"
    with assms(2) g d show ?thesis by (auto simp: addArgument_def)
  next
    assume "add = addArgument_p6"
    with assms(2) g d show ?thesis
      by (auto simp: addArgument_p6_def trim_validArgumentDirections)
  qed
qed

lemma list_all_Map_set:
  "list_all P kvs \<Longrightarrow> P (k, v) \<Longrightarrow> list_all P (Map_set k v kvs)"
  by (induction kvs) auto


lemma filter_Map_set:
  "filter (\<lambda>kv. fst kv \<noteq> k) (Map_set k v kvs) = filter (\<lambda>kv. fst kv \<noteq> k) kvs"
  by (induction kvs) auto

lemma addArgument_stores:
  fixes meta :: "'a WorkflowMetadata_scheme"
  assumes "n \<noteq> []" "d \<in> set validArgumentDirections" "t \<noteq> []"
  shows "addArgument meta (Str n) (Str d) (Str t) (Str a) (Str v) =
         Inr (meta\<lparr>arguments := Map_set n
                \<lparr>arg_name = n, arg_direction = d, arg_type = t, arg_annotation = a,
                 arg_defaultValue = v\<rparr> (arguments meta)\<rparr>)"
  using addArgument_guards_pass [OF assms] by (simp add: addArgument_def)

lemma addArgument_p6_stores:
  fixes meta :: "'a WorkflowMetadata_scheme"
  assumes "n \<noteq> []" "d \<in> set validArgumentDirections" "t \<noteq> []"
  shows "addArgument_p6 meta (Str n) (Str d) (Str t) (Str a) (Str v) =
         Inr (meta\<lparr>arguments := Map_set n
                \<lparr>arg_name = trim n, arg_direction = d, arg_type = trim t,
                 arg_annotation = replaceNewlines '' '' (trim a),
                 arg_defaultValue = replace1 CHR '']'' [] (replace1 CHR ''['' [] (trim v))\<rparr>
                (arguments meta)\<rparr>)"
  using addArgument_guards_pass [OF assms] assms(2)
  by (simp add: addArgument_p6_def trim_validArgumentDirections)




text \<open>
  Claim C10. A successful \<open>addArgument\<close>, in either revision, changes nothing but the entry of
  the arguments map under the given name: \<open>filePath\<close>, \<open>workflowName\<close>, \<open>workflowAnnotation\<close>
  and any further field are as before, a lookup under any other key gives what it gave
  before, and the entries under the other keys are the same, in the same order.
\<close>

theorem addArgument_frame:
  fixes meta :: "'a WorkflowMetadata_scheme"
  assumes "add = addArgument \<or> add = addArgument_p6"
    and "add meta nm direction ty annotation defaultValue = Inr meta'"
  shows "filePath meta' = filePath meta
     \<and> workflowName meta' = workflowName meta
     \<and> workflowAnnotation meta' = workflowAnnotation meta
     \<and> WorkflowMetadata.more meta' = WorkflowMetadata.more meta
     \<and> (\<forall>k. k \<noteq> the_str nm \<longrightarrow> map_of (getArguments meta') k = map_of (getArguments meta) k)
     \<and> filter (\<lambda>kv. fst kv \<noteq> the_str nm) (getArguments meta')
         = filter (\<lambda>kv. fst kv \<noteq> the_str nm) (getArguments meta)"
proof -
  from addArgument_Inr_arguments [OF assms] obtain arg where
    m: "meta' = meta\<lparr>arguments := Map_set (the_str nm) arg (arguments meta)\<rparr>" by blast
  show ?thesis
    unfolding m getArguments_def by (simp add: map_of_Map_set filter_Map_set)
qed

theorem addArgument_frame_witness:
  "addArgument_p6
     (fresh_p6\<lparr>arguments := [(''Ni'', \<lparr>arg_name = ''Ni'', arg_direction = ''InArgument'',
                  arg_type = ''String'', arg_annotation = [], arg_defaultValue = []\<rparr>)],
               workflowName := Some ''uno''\<rparr>)
     (Str ''Ichi'') (Str ''OutArgument'') (Str ''Int32'') (Str []) (Str ''[7]'')
   = Inr (fresh_p6\<lparr>arguments :=
                 [(''Ni'', \<lparr>arg_name = ''Ni'', arg_direction = ''InArgument'',
                   arg_type = ''String'', arg_annotation = [], arg_defaultValue = []\<rparr>),
                  (''Ichi'', \<lparr>arg_name = ''Ichi'', arg_direction = ''OutArgument'',
                   arg_type = ''Int32'', arg_annotation = [], arg_defaultValue = ''7''\<rparr>)],
               workflowName := Some ''uno''\<rparr>)
   \<and> map_of (getArguments (fresh_p6\<lparr>arguments :=
                 [(''Ni'', \<lparr>arg_name = ''Ni'', arg_direction = ''InArgument'',
                   arg_type = ''String'', arg_annotation = [], arg_defaultValue = []\<rparr>),
                  (''Ichi'', \<lparr>arg_name = ''Ichi'', arg_direction = ''OutArgument'',
                   arg_type = ''Int32'', arg_annotation = [], arg_defaultValue = ''7''\<rparr>)],
               workflowName := Some ''uno''\<rparr>)) ''Ni''
     = Some \<lparr>arg_name = ''Ni'', arg_direction = ''InArgument'',
              arg_type = ''String'', arg_annotation = [], arg_defaultValue = []\<rparr>"
proof -
  have h: "addArgument_p6
     (fresh_p6\<lparr>arguments := [(''Ni'', \<lparr>arg_name = ''Ni'', arg_direction = ''InArgument'',
                  arg_type = ''String'', arg_annotation = [], arg_defaultValue = []\<rparr>)],
               workflowName := Some ''uno''\<rparr>)
     (Str ''Ichi'') (Str ''OutArgument'') (Str ''Int32'') (Str []) (Str ''[7]'')
   = Inr (fresh_p6\<lparr>arguments :=
                 [(''Ni'', \<lparr>arg_name = ''Ni'', arg_direction = ''InArgument'',
                   arg_type = ''String'', arg_annotation = [], arg_defaultValue = []\<rparr>),
                  (''Ichi'', \<lparr>arg_name = ''Ichi'', arg_direction = ''OutArgument'',
                   arg_type = ''Int32'', arg_annotation = [], arg_defaultValue = ''7''\<rparr>)],
               workflowName := Some ''uno''\<rparr>)"
    by code_simp
  show ?thesis
    using h addArgument_frame [OF disjI2 [OF refl] h] by (simp add: getArguments_def)
qed


lemma setWorkflowName_Inr:
  fixes meta :: "'a WorkflowMetadata_scheme"
  shows "setWorkflowName meta v = Inr meta' \<longleftrightarrow>
         (\<exists>s. v = Str s \<and> s \<noteq> [] \<and> meta' = meta\<lparr>workflowName := Some s\<rparr>)"
  unfolding setWorkflowName_def required_string_iff by auto

lemma setWorkflowAnnotation_Inr:
  fixes meta :: "'a WorkflowMetadata_scheme"
  shows "setWorkflowAnnotation meta v = Inr meta' \<longleftrightarrow>
         (\<exists>s. v = Str s \<and> s \<noteq> [] \<and> meta' = meta\<lparr>workflowAnnotation := Some s\<rparr>)"
  unfolding setWorkflowAnnotation_def required_string_iff by auto

text \<open>
  Claim C6, as the code has it. A model as constructed has neither name nor annotation.
  Reading an unset field fails with a ReferenceError, a class the code throws for nothing
  else (every other error it throws is a TypeError). After a successful set, the getters of
  \<^verbatim>\<open>app/WorkflowMetadata.js\<close> return exactly the string that was set; the getters of the
  revision in \<^verbatim>\<open>part_006\<close> return it without its leading and trailing white space.
\<close>

theorem workflow_fields_read:
  fixes meta :: "'a WorkflowMetadata_scheme"
  shows
    "(new_WorkflowMetadata fp = Inr m0 \<longrightarrow> workflowName m0 = None \<and> workflowAnnotation m0 = None)
     \<and> (workflowName meta = None \<longrightarrow>
          getWorkflowName meta = Inl (ReferenceError ''The workflowName property has not been set.'')
          \<and> getWorkflowName_p6 meta =
              Inl (ReferenceError ''The workflowName property has not been set.''))
     \<and> (workflowAnnotation meta = None \<longrightarrow>
          getWorkflowAnnotation meta =
            Inl (ReferenceError ''The workflowAnnotation property has not been set.'')
          \<and> getWorkflowAnnotation_p6 meta =
              Inl (ReferenceError ''The workflowAnnotation property has not been set.''))
     \<and> (setWorkflowName meta v = Inr meta1 \<longrightarrow>
          getWorkflowName meta1 = Inr (the_str v)
          \<and> getWorkflowName_p6 meta1 = Inr (trim (the_str v)))
     \<and> (setWorkflowAnnotation meta w = Inr meta2 \<longrightarrow>
          getWorkflowAnnotation meta2 = Inr (the_str w)
          \<and> getWorkflowAnnotation_p6 meta2 = Inr (trim (the_str w)))"
  unfolding setWorkflowName_Inr setWorkflowAnnotation_Inr
  by (auto simp: new_WorkflowMetadata_def getWorkflowName_def getWorkflowName_p6_def
        getWorkflowAnnotation_def getWorkflowAnnotation_p6_def split: if_splits)

theorem workflow_fields_read_witness:
  "getWorkflowName fresh = Inl (ReferenceError ''The workflowName property has not been set.'')
   \<and> getWorkflowAnnotation_p6 fresh_p6 =
       Inl (ReferenceError ''The workflowAnnotation property has not been set.'')
   \<and> getWorkflowName (fresh\<lparr>workflowName := Some ''uno''\<rparr>) = Inr ''uno''
   \<and> getWorkflowAnnotation_p6 (fresh_p6\<lparr>workflowAnnotation := Some '' Hello ''\<rparr>) = Inr (trim '' Hello '')
   \<and> workflowName fresh = None"
proof -
  have n: "new_WorkflowMetadata (Str ''uno.xaml'') = Inr fresh"
    by (simp add: new_WorkflowMetadata_def)
  have s1: "setWorkflowName fresh (Str ''uno'') = Inr (fresh\<lparr>workflowName := Some ''uno''\<rparr>)"
    by (simp add: setWorkflowName_def)
  have s2: "setWorkflowAnnotation fresh_p6 (Str '' Hello '')
            = Inr (fresh_p6\<lparr>workflowAnnotation := Some '' Hello ''\<rparr>)"
    by (simp add: setWorkflowAnnotation_def)
  show ?thesis
    using n s1 s2
      workflow_fields_read [of "Str ''uno.xaml''" fresh fresh "Str ''uno''"
        "fresh\<lparr>workflowName := Some ''uno''\<rparr>" "Str []" fresh]
      workflow_fields_read [of "Str ''uno.xaml''" fresh fresh_p6 "Str []" fresh_p6
        "Str '' Hello ''" "fresh_p6\<lparr>workflowAnnotation := Some '' Hello ''\<rparr>"]
    by simp
qed

text \<open>A name set with a leading space is not what the getter of \<^verbatim>\<open>part_006\<close> returns.\<close>

theorem getWorkflowName_p6_trims_counterexample:
  "(case setWorkflowName fresh_p6 (Str '' uno'') of
      Inl e \<Rightarrow> Inl e
    | Inr m \<Rightarrow> getWorkflowName_p6 m) = Inr ''uno''"
  by code_simp

text \<open>
  Claim C7, as the code has it. The setters do not look at the stored value: on a model whose
  field already holds a value, setting it to any non-empty string succeeds and replaces the
  stored value, which is what the getter returns from then on.
\<close>

theorem setters_overwrite:
  fixes meta :: "'a WorkflowMetadata_scheme"
  assumes "s \<noteq> []"
  shows "(workflowName meta = Some old \<longrightarrow>
            setWorkflowName meta (Str s) = Inr (meta\<lparr>workflowName := Some s\<rparr>)
            \<and> getWorkflowName (meta\<lparr>workflowName := Some s\<rparr>) = Inr s)
       \<and> (workflowAnnotation meta = Some old \<longrightarrow>
            setWorkflowAnnotation meta (Str s) = Inr (meta\<lparr>workflowAnnotation := Some s\<rparr>)
            \<and> getWorkflowAnnotation (meta\<lparr>workflowAnnotation := Some s\<rparr>) = Inr s)"
  using assms
  by (simp add: setWorkflowName_def setWorkflowAnnotation_def getWorkflowName_def
        getWorkflowAnnotation_def)

theorem setters_overwrite_witness:
  "setWorkflowName (fresh\<lparr>workflowName := Some ''uno'', workflowAnnotation := Some ''uno''\<rparr>) (Str ''dos'')
     = Inr (fresh\<lparr>workflowName := Some ''dos'', workflowAnnotation := Some ''uno''\<rparr>)
   \<and> setWorkflowAnnotation (fresh\<lparr>workflowName := Some ''uno'', workflowAnnotation := Some ''uno''\<rparr>) (Str ''dos'')
     = Inr (fresh\<lparr>workflowName := Some ''uno'', workflowAnnotation := Some ''dos''\<rparr>)"
  using setters_overwrite [of "''dos''"
      "fresh\<lparr>workflowName := Some ''uno'', workflowAnnotation := Some ''uno''\<rparr>" "''uno''"]
  by simp

text \<open>Two sets in a row with unrelated names both succeed, and the second name is read.\<close>

theorem setWorkflowName_replaces_counterexample:
  "(case setWorkflowName fresh (Str ''uno'') of
      Inl e \<Rightarrow> Inl e
    | Inr m \<Rightarrow>
        (case setWorkflowName m (Str ''dos'') of
           Inl e \<Rightarrow> Inl e
         | Inr m' \<Rightarrow> getWorkflowName m')) = Inr ''dos''"
  by code_simp

lemma trim_bracketed: "trim (''['' @ v @ '']'') = ''['' @ v @ '']''"
  by (simp add: trim_def isWhiteSpace_def)

lemma replace1_head: "replace1 c [] (c # xs) = xs"
  by (simp add: replace1_def)

lemma dropWhile_until: "c \<notin> set xs \<Longrightarrow> dropWhile (\<lambda>x. x \<noteq> c) (xs @ c # ys) = c # ys"
  by (induction xs) auto

lemma replace1_last: "c \<notin> set xs \<Longrightarrow> replace1 c [] (xs @ [c]) = xs"
  using takeWhile_until [of c xs "[]"] dropWhile_until [of c xs "[]"]
  by (simp add: replace1_def)

text \<open>
  Claim C8, as the code has it. For a default value \<open>[v]\<close> whose inner text \<open>v\<close> has no \<open>]\<close>,
  \<open>addArgument\<close> of the revision in \<^verbatim>\<open>part_006\<close> stores \<open>v\<close>, and \<open>addArgument\<close> of
  \<^verbatim>\<open>app/WorkflowMetadata.js\<close> stores \<open>[v]\<close> as given, brackets included.
\<close>

theorem addArgument_defaultValue_brackets:
  fixes meta :: "'a WorkflowMetadata_scheme"
  assumes "n \<noteq> []" "d \<in> set validArgumentDirections" "t \<noteq> []"
    and "CHR '']'' \<notin> set v"
  shows "(\<exists>m2. addArgument_p6 meta (Str n) (Str d) (Str t) (Str a) (Str (''['' @ v @ '']'')) = Inr m2
            \<and> map_option arg_defaultValue (map_of (getArguments m2) n) = Some v)
       \<and> (\<exists>m1. addArgument meta (Str n) (Str d) (Str t) (Str a) (Str (''['' @ v @ '']'')) = Inr m1
            \<and> map_option arg_defaultValue (map_of (getArguments m1) n) = Some (''['' @ v @ '']''))"
proof -
  have "replace1 CHR '']'' [] (replace1 CHR ''['' [] (trim (''['' @ v @ '']''))) = v"
    unfolding trim_bracketed using replace1_head [of "CHR ''[''" "v @ '']''"]
      replace1_last [OF assms(4)] by simp
  then show ?thesis
    unfolding addArgument_p6_stores [OF assms(1-3)] addArgument_stores [OF assms(1-3)]
    by (simp add: getArguments_def map_of_Map_set)
qed

theorem addArgument_defaultValue_brackets_witness:
  "(\<exists>m2. addArgument_p6 fresh_p6 (Str ''Ichi'') (Str ''InArgument'') (Str ''String'') (Str [])
            (Str ''[abc]'') = Inr m2
        \<and> map_option arg_defaultValue (map_of (getArguments m2) ''Ichi'') = Some ''abc'')"
proof -
  have v: "''InArgument'' \<in> set validArgumentDirections"
    by (simp add: validArgumentDirections_def)
  show ?thesis
    using addArgument_defaultValue_brackets [OF _ v, of "''Ichi''" "''String''" "''abc''" fresh_p6 "[]"]
    by simp
qed

text \<open>\<^verbatim>\<open>app/WorkflowMetadata.js\<close> keeps the brackets of \<open>[abc]\<close>; the revision in \<^verbatim>\<open>part_006\<close>
  removes the first \<open>]\<close> of \<open>[a]b]\<close>, not the closing one.\<close>

theorem addArgument_defaultValue_brackets_counterexample:
  "addArgument fresh (Str ''Ichi'') (Str ''InArgument'') (Str ''String'') (Str []) (Str ''[abc]'')
     = Inr (fresh\<lparr>arguments := [(''Ichi'', \<lparr>arg_name = ''Ichi'', arg_direction = ''InArgument'',
              arg_type = ''String'', arg_annotation = [], arg_defaultValue = ''[abc]''\<rparr>)]\<rparr>)
   \<and> addArgument_p6 fresh_p6 (Str ''Ichi'') (Str ''InArgument'') (Str ''String'') (Str [])
       (Str ''[a]b]'')
     = Inr (fresh_p6\<lparr>arguments := [(''Ichi'', \<lparr>arg_name = ''Ichi'', arg_direction = ''InArgument'',
              arg_type = ''String'', arg_annotation = [], arg_defaultValue = ''ab]''\<rparr>)]\<rparr>)"
  by code_simp

section \<open>Properties of the document extractor\<close>

lemma xpath_Activity_root:
  assumes "documentElement xamlDoc = Some root" "nameTest ''xaml'' ''Activity'' root"
  shows "xpath [(''xaml'', ''Activity'')] xamlDoc = [root]"
  using assms by (simp add: xpath_def)

lemma getArgumentDefaultValue_root:
  assumes "documentElement xamlDoc = Some root" "nameTest ''xaml'' ''Activity'' root"
    and "argumentName \<noteq> []"
  shows "getArgumentDefaultValue (Some xamlDoc) (Str argumentName) =
         Inr (case map_of (attributes root)
                     (''this:'' @ getAttribute root ''x:Class'' @ ''.'' @ argumentName) of
                None \<Rightarrow> []
              | Some v \<Rightarrow> v)"
  using assms(3)
  by (simp add: getArgumentDefaultValue_def getClassName_def xpath_Activity_root [OF assms(1,2)]
        format_this_def hasAttribute_def getAttribute_def Let_def split: option.splits)

lemma declared_has_Activity_root:
  assumes "arg \<in> set (xpath [(''xaml'', ''Activity''), (''x'', ''Members''), (''x'', ''Property'')]
                        xamlDoc)"
  shows "\<exists>root. documentElement xamlDoc = Some root \<and> nameTest ''xaml'' ''Activity'' root"
proof (cases "documentElement xamlDoc")
  case None
  with assms show ?thesis by (simp add: xpath_def)
next
  case (Some root)
  with assms have "nameTest ''xaml'' ''Activity'' root"
    by (cases "nameTest ''xaml'' ''Activity'' root") (simp_all add: xpath_def)
  with Some show ?thesis by simp
qed

text \<open>
  Claim C9. For every document and every argument it declares (a property element found under
  the members of the activity, with a non-empty name), the default-value resolver raises no
  error: when the outermost element has no attribute named \<open>this:<ClassName>.<ArgumentName>\<close>,
  with the class name read from the attribute \<open>x:Class\<close> of the outermost element, it returns
  the empty string, and when the attribute is there it returns its value.
\<close>

theorem getArgumentDefaultValue_declared:
  assumes "arg \<in> set (xpath [(''xaml'', ''Activity''), (''x'', ''Members''), (''x'', ''Property'')]
                        xamlDoc)"
    and "getAttribute arg ''Name'' = argumentName"
    and "argumentName \<noteq> []"
  shows "\<exists>root. documentElement xamlDoc = Some root
           \<and> getArgumentDefaultValue (Some xamlDoc) (Str argumentName) =
               Inr (case map_of (attributes root)
                           (''this:'' @ getAttribute root ''x:Class'' @ ''.'' @ argumentName) of
                      None \<Rightarrow> []
                    | Some v \<Rightarrow> v)"
proof -
  from declared_has_Activity_root [OF assms(1)] obtain root where
    r: "documentElement xamlDoc = Some root" "nameTest ''xaml'' ''Activity'' root" by blast
  from getArgumentDefaultValue_root [OF r assms(3)] r(1) show ?thesis by blast
qed

theorem getArgumentDefaultValue_declared_witness:
  "getArgumentDefaultValue (Some doc_uno) (Str ''Ichi'') = Inr ''A default string value''
   \<and> getArgumentDefaultValue (Some doc_uno) (Str ''Ni'') = Inr []"
proof -
  have x: "xpath [(''xaml'', ''Activity''), (''x'', ''Members''), (''x'', ''Property'')] doc_uno
           = [prop_Ichi, prop_Ni]"
    by code_simp
  have 1: "prop_Ichi \<in> set (xpath [(''xaml'', ''Activity''), (''x'', ''Members''), (''x'', ''Property'')] doc_uno)"
    unfolding x by simp
  have 2: "prop_Ni \<in> set (xpath [(''xaml'', ''Activity''), (''x'', ''Members''), (''x'', ''Property'')] doc_uno)"
    unfolding x by simp
  have n1: "getAttribute prop_Ichi ''Name'' = ''Ichi''" by (simp add: getAttribute_def)
  have n2: "getAttribute prop_Ni ''Name'' = ''Ni''" by (simp add: getAttribute_def)
  show ?thesis
    using getArgumentDefaultValue_declared [OF 1 n1] getArgumentDefaultValue_declared [OF 2 n2]
    by (simp add: getAttribute_def)
qed

text \<open>
  \<open>getWorkflowAnnotation\<close> of the processor gives the empty string for a root without the
  annotation attribute, and \<open>setWorkflowAnnotation\<close> refuses the empty string: for every such
  document \<open>getMetadata\<close> ends with a TypeError (of the name setter when the display name is
  empty too).
\<close>

lemma getMetadata_without_annotation:
  assumes "truthy fp" "typeof fp = ''string''"
    and "readFileSync (the_str fp) = Inr content" "parseFromString content = Some doc"
    and "workflowElements doc = e # es"
    and "\<not> hasAttribute e ''sap2010:Annotation.AnnotationText''"
  shows "getMetadata readFileSync parseFromString fp =
         Inl (TypeError (if getAttribute e ''DisplayName'' = []
                         then ''workflowName parameter is required and must be a string''
                         else ''workflowAnnotation parameter is required and must be a string''))"
  using assms
  by (simp add: getMetadata_def new_WorkflowMetadata_def getWorkflowName_xaml_def
        getWorkflowAnnotation_xaml_def setWorkflowName_def setWorkflowAnnotation_def Let_def)

text \<open>
  Claim C1 says that a document whose workflow root has no annotation attribute is extracted
  without error, with the empty string as annotation. On such a document, a sequence with a
  display name and nothing else, \<open>getMetadata\<close> throws the TypeError of
  \<open>setWorkflowAnnotation\<close>.
\<close>

theorem getMetadata_without_annotation_fails:
  "getMetadata (\<lambda>path. Inr xaml_dos) (\<lambda>content. Some doc_dos) (Str ''dos.xaml'') =
     Inl (TypeError ''workflowAnnotation parameter is required and must be a string'')"
  by code_simp

theorem getMetadata_without_annotation_fails_witness:
  "truthy (Str ''dos.xaml'') \<and> typeof (Str ''dos.xaml'') = ''string''
   \<and> workflowElements doc_dos = [Element xaml_ns ''Sequence'' [(''DisplayName'', ''dos'')] []]
   \<and> \<not> hasAttribute (Element xaml_ns ''Sequence'' [(''DisplayName'', ''dos'')] [])
         ''sap2010:Annotation.AnnotationText''
   \<and> getWorkflowAnnotation_xaml (Some doc_dos) = Inr []
   \<and> isl (getMetadata (\<lambda>path. Inr xaml_dos) (\<lambda>content. Some doc_dos) (Str ''dos.xaml''))"
proof -
  have w: "workflowElements doc_dos = [Element xaml_ns ''Sequence'' [(''DisplayName'', ''dos'')] []]"
    by code_simp
  have a: "getWorkflowAnnotation_xaml (Some doc_dos) = Inr []"
    by code_simp
  show ?thesis
    using w a getMetadata_without_annotation_fails by (simp add: hasAttribute_def)
qed

text \<open>
  Claim C2, as the code has it. For every document with neither a flowchart nor a sequence
  under its activity, extraction fails: \<open>getWorkflowName\<close>, \<open>getWorkflowAnnotation\<close> and
  \<open>getMetadata\<close> end with the TypeError that the engine raises when a method is called on
  \<^verbatim>\<open>workflowElements[ 0 ]\<close>, which is \<^verbatim>\<open>undefined\<close>. Where the parser returns no document
  at all, as \<^verbatim>\<open>xmldom\<close> does for an empty file, they end with the TypeError of the guard on
  \<^verbatim>\<open>xamlDoc\<close>, which \<open>getMetadata\<close> reaches first in \<open>getWorkflowName\<close>. No error of the
  program's own describes the document as malformed.
\<close>

theorem no_workflow_root_fails:
  assumes "xpath [(''xaml'', ''Activity''), (''xaml'', ''Flowchart'')] doc = []"
    and "xpath [(''xaml'', ''Activity''), (''xaml'', ''Sequence'')] doc = []"
  shows "getWorkflowName_xaml (Some doc) = Inl (CannotReadProperty ''getAttribute'')
       \<and> getWorkflowAnnotation_xaml (Some doc) = Inl (CannotReadProperty ''hasAttribute'')
       \<and> (truthy fp \<and> typeof fp = ''string'' \<and> readFileSync (the_str fp) = Inr content
            \<and> parseFromString content = Some doc \<longrightarrow>
          getMetadata readFileSync parseFromString fp = Inl (CannotReadProperty ''getAttribute''))
       \<and> getWorkflowName_xaml None =
           Inl (TypeError ''xamlDoc parameter is required and must be an instance of DOMParser object'')
       \<and> getWorkflowAnnotation_xaml None =
           Inl (TypeError ''xamlDoc parameter is required and must be an instance of DOMParser object'')
       \<and> (truthy fp \<and> typeof fp = ''string'' \<and> readFileSync (the_str fp) = Inr content
            \<and> parseFromString content = None \<longrightarrow>
          getMetadata readFileSync parseFromString fp =
            Inl (TypeError ''xamlDoc parameter is required and must be an instance of DOMParser object''))"
proof -
  have w: "workflowElements doc = []"
    using assms by (simp add: workflowElements_def)
  show ?thesis
    by (simp add: w getMetadata_def new_WorkflowMetadata_def getWorkflowName_xaml_def
          getWorkflowAnnotation_xaml_def Let_def)
qed

theorem no_workflow_root_fails_witness:
  "getWorkflowAnnotation_xaml (Some doc_no_workflow) = Inl (CannotReadProperty ''hasAttribute'')
   \<and> getWorkflowName_xaml (Some doc_no_workflow) = Inl (CannotReadProperty ''getAttribute'')
   \<and> getMetadata (\<lambda>path. Inr xaml_no_workflow) (\<lambda>content. Some doc_no_workflow)
         (Str ''nil.xaml'')
       = Inl (CannotReadProperty ''getAttribute'')
   \<and> getMetadata (\<lambda>path. Inr []) (\<lambda>content. None) (Str ''empty.xaml'')
       = Inl (TypeError ''xamlDoc parameter is required and must be an instance of DOMParser object'')"
proof -
  have f: "xpath [(''xaml'', ''Activity''), (''xaml'', ''Flowchart'')] doc_no_workflow = []"
    by code_simp
  have s: "xpath [(''xaml'', ''Activity''), (''xaml'', ''Sequence'')] doc_no_workflow = []"
    by code_simp
  show ?thesis
    using
      no_workflow_root_fails [OF f s, of "Str ''nil.xaml''" "\<lambda>path. Inr xaml_no_workflow"
        xaml_no_workflow "\<lambda>content. Some doc_no_workflow"]
      no_workflow_root_fails [OF f s, of "Str ''empty.xaml''" "\<lambda>path. Inr []"
        "[]" "\<lambda>content. None"]
    by simp
qed

text \<open>The error of an activity without workflow is the engine's, not a message of the
  program about the document.\<close>

theorem getMetadata_no_workflow_counterexample:
  "getMetadata (\<lambda>path. Inr xaml_no_workflow) (\<lambda>content. Some doc_no_workflow)
     (Str ''nil.xaml'') =
     Inl (CannotReadProperty ''getAttribute'')"
  by code_simp

text \<open>A document with a sequence, an annotation and two declared arguments is extracted.\<close>

lemma getMetadata_doc_uno:
  "getMetadata (\<lambda>path. Inr xaml_uno) (\<lambda>content. Some doc_uno) (Str ''uno.xaml'') =
     Inr \<lparr>filePath = ''uno.xaml'',
          arguments =
            [(''Ichi'', \<lparr>arg_name = ''Ichi'', arg_direction = ''InArgument'',
                arg_type = ''String'', arg_annotation = [],
                arg_defaultValue = ''A default string value''\<rparr>),
             (''Ni'', \<lparr>arg_name = ''Ni'', arg_direction = ''InArgument'',
                arg_type = ''String'', arg_annotation = [], arg_defaultValue = []\<rparr>)],
          workflowName = Some ''uno'', workflowAnnotation = Some ''Hello''\<rparr>"
  by code_simp

text \<open>Every model that \<open>getMetadata\<close> returns holds only arguments with one of the three
  directions.\<close>

lemma forEach_addArgument_directions:
  assumes "list_all (\<lambda>kv. arg_direction (snd kv) \<in> set validArgumentDirections) (getArguments m)"
    and "forEach_addArgument m args = Inr m'"
  shows "list_all (\<lambda>kv. arg_direction (snd kv) \<in> set validArgumentDirections) (getArguments m')"
  using assms
proof (induction args arbitrary: m)
  case Nil
  then show ?case by simp
next
  case (Cons x xs)
  from Cons.prems(2) obtain m1 where
    1: "addArgument m (Str (arg_name x)) (Str (arg_direction x)) (Str (arg_type x))
          (Str (arg_annotation x)) (Str (arg_defaultValue x)) = Inr m1"
    and 2: "forEach_addArgument m1 xs = Inr m'"
    by (auto split: sum.splits)
  from addArgument_Inr_arguments [OF disjI1 [OF refl] 1] obtain arg where
    "m1 = m\<lparr>arguments := Map_set (the_str (Str (arg_name x))) arg (arguments m)\<rparr>"
    "arg_direction arg \<in> set validArgumentDirections" by blast
  with Cons.prems(1) have
    "list_all (\<lambda>kv. arg_direction (snd kv) \<in> set validArgumentDirections) (getArguments m1)"
    by (simp add: getArguments_def list_all_Map_set)
  from Cons.IH [OF this 2] show ?case .
qed

lemma getMetadata_directions:
  assumes "getMetadata readFileSync parseFromString fp = Inr m"
  shows "list_all (\<lambda>kv. arg_direction (snd kv) \<in> set validArgumentDirections) (getArguments m)"
proof -
  from assms obtain m0 m1 m2 v w args where
    0: "new_WorkflowMetadata fp = Inr m0"
    and 1: "setWorkflowName m0 v = Inr m1"
    and 2: "setWorkflowAnnotation m1 w = Inr m2"
    and 3: "forEach_addArgument m2 args = Inr m"
    by (auto simp: getMetadata_def Let_def split: if_splits sum.splits option.splits)
  from 0 have "getArguments m0 = []"
    by (auto simp: new_WorkflowMetadata_def getArguments_def split: if_splits)
  with 1 2 have "getArguments m2 = []"
    by (auto simp: setWorkflowName_Inr setWorkflowAnnotation_Inr getArguments_def)
  then have "list_all (\<lambda>kv. arg_direction (snd kv) \<in> set validArgumentDirections) (getArguments m2)"
    by simp
  from forEach_addArgument_directions [OF this 3] show ?thesis .
qed

end
